theory Spec2Isabelle
  imports Complex_Main
begin

section \<open>The simulation functions of the notebook\<close>

text \<open>
  The notebook \<^verbatim>\<open>volatility_impact_on_returns2.ipynb\<close> defines three functions
  (\<^verbatim>\<open>generate_return_rates\<close>, \<^verbatim>\<open>calculate_fund_returns\<close>,
  \<^verbatim>\<open>make_mutual_fund\<close>) and four kinds of cells that use them: the fund
  definitions, the trial runner, the expected-return cell and the threshold-probability
  cells. The functions keep their names; a cell is named after the variable it assigns
  (\<open>end_returns_per_trial\<close>) or the quantity it prints (the expected return, the
  probability of reaching a threshold).

  Python's numbers are duck typed. The accumulator only adds, multiplies and uses the
  constant \<open>1\<close>, so its model is polymorphic in a number type with exactly these
  operations. The sampler, the fund model and the order of the threshold
  probabilities are modelled over exact arithmetic (an ordered field such as \<open>rat\<close>
  or \<open>real\<close>); the values the statistics cells print are modelled in binary64.
\<close>

subsection \<open>Errors\<close>

text \<open>
  The exceptions the modelled code can raise: \<open>ValueError\<close> from
  \<^verbatim>\<open>np.random.randn\<close> on a negative dimension, \<open>IndexError\<close> from
  \<^verbatim>\<open>[-1]\<close> on an empty list, \<open>ZeroDivisionError\<close> from \<^verbatim>\<open>/\<close>.
\<close>

datatype py_error = ValueError | IndexError | ZeroDivisionError

subsection \<open>The accumulator\<close>

text \<open>
  \<^verbatim>\<open>
  def calculate_fund_returns(contribution_per_year, returns_by_year, starting_principal=0):
      principal = starting_principal
      value_by_year = []
      for return_rate in returns_by_year:
          # Add the contribution first thing each year
          principal = principal + contribution_per_year
          # Calculate growth/loss
          principal = principal * (1 + return_rate)
          value_by_year.append(principal)
      return value_by_year
  \<close>
  The \<^verbatim>\<open>for\<close> loop is \<open>fund_loop\<close>: its arguments are the rates still to come and
  the two variables the loop body updates (\<open>principal0\<close>, \<open>principal1\<close> and
  \<open>principal2\<close> are the successive values of \<^verbatim>\<open>principal\<close>).
\<close>

fun fund_loop :: "'a::{plus,times,one} \<Rightarrow> 'a list \<Rightarrow> 'a \<Rightarrow> 'a list \<Rightarrow> 'a list" where
  "fund_loop contribution_per_year [] principal0 value_by_year = value_by_year"
| "fund_loop contribution_per_year (return_rate # returns_by_year) principal0 value_by_year =
     (let principal1 = principal0 + contribution_per_year;
          principal2 = principal1 * (1 + return_rate)
      in fund_loop contribution_per_year returns_by_year principal2 (value_by_year @ [principal2]))"

definition calculate_fund_returns :: "'a::{plus,times,one} \<Rightarrow> 'a list \<Rightarrow> 'a \<Rightarrow> 'a list" where
  "calculate_fund_returns contribution_per_year returns_by_year starting_principal =
     fund_loop contribution_per_year returns_by_year starting_principal []"

text \<open>
  The recurrence of the specification, written from its words: \<open>v\<^sub>0 = p\<close> and
  \<open>v\<^sub>i = (v\<^sub>i\<^sub>-\<^sub>1 + c) * (1 + r\<^sub>i)\<close>, where \<open>r\<^sub>i\<close> is the \<open>i\<close>-th rate
  (\<open>rs ! (i - 1)\<close> with lists counted from zero).
\<close>

fun recurrence_value :: "'a::{plus,times,one} \<Rightarrow> 'a \<Rightarrow> 'a list \<Rightarrow> nat \<Rightarrow> 'a" where
  "recurrence_value c p rs 0 = p"
| "recurrence_value c p rs (Suc i) = (recurrence_value c p rs i + c) * (1 + rs ! i)"

definition recurrence_trajectory :: "'a::{plus,times,one} \<Rightarrow> 'a list \<Rightarrow> 'a \<Rightarrow> 'a list" where
  "recurrence_trajectory c rs p = map (\<lambda>i. recurrence_value c p rs (Suc i)) [0..<length rs]"

subsection \<open>The return sampler\<close>

text \<open>
  \<^verbatim>\<open>np.random.randn(d)\<close> draws \<open>d\<close> standard normal samples from numpy's global
  generator and raises \<open>ValueError\<close> (negative dimensions are not allowed) for a
  negative \<open>d\<close>, before it draws anything. numpy is not part of the repository: the
  generator is modelled by the infinite sequence of the samples it has still to give,
  which a call consumes from the front.
\<close>

type_synonym 'a random_state = "nat \<Rightarrow> 'a"

definition randn :: "int \<Rightarrow> 'a random_state \<Rightarrow> (py_error + 'a list) \<times> 'a random_state" where
  "randn d g =
     (if d < 0 then (Inl ValueError, g)
      else (Inr (map g [0..<nat d]), \<lambda>i. g (nat d + i)))"

text \<open>
  \<^verbatim>\<open>
  def generate_return_rates(return_mean, return_std, years):
      return return_mean + return_std * np.random.randn(years)
  \<close>
  The scalars are broadcast over the array of samples.
\<close>

definition generate_return_rates ::
  "'a::field \<Rightarrow> 'a \<Rightarrow> int \<Rightarrow> 'a random_state \<Rightarrow> (py_error + 'a list) \<times> 'a random_state" where
  "generate_return_rates return_mean return_std years g =
     (case randn years g of
        (Inl e, g') \<Rightarrow> (Inl e, g')
      | (Inr samples, g') \<Rightarrow> (Inr (map (\<lambda>z. return_mean + return_std * z) samples), g'))"

subsection \<open>The fund model\<close>

text \<open>
  \<^verbatim>\<open>
  def make_mutual_fund(return_mean, return_std, years, yearly_addition):
      fund_return_rates = [percent / 100 for percent in
                           generate_return_rates(return_mean, return_std, years)]
      fund_value_by_year = calculate_fund_returns(yearly_addition, fund_return_rates)
      return fund_value_by_year

  def get_fund1_returns(): return make_mutual_fund(10, 5.214, 30, 5500)
  def get_fund2_returns(): return make_mutual_fund(8, 4.665, 30, 5500)
  def get_fund3_returns(): return make_mutual_fund(6, 4.116, 30, 5500)
  def get_fund4_returns(): return make_mutual_fund(4, 3.566, 30, 5500)
  \<close>
  The call of \<^verbatim>\<open>calculate_fund_returns\<close> leaves \<^verbatim>\<open>starting_principal\<close> at its
  default \<open>0\<close>.
\<close>

definition make_mutual_fund ::
  "'a::field \<Rightarrow> 'a \<Rightarrow> int \<Rightarrow> 'a \<Rightarrow> 'a random_state \<Rightarrow> (py_error + 'a list) \<times> 'a random_state" where
  "make_mutual_fund return_mean return_std years yearly_addition g =
     (case generate_return_rates return_mean return_std years g of
        (Inl e, g') \<Rightarrow> (Inl e, g')
      | (Inr percents, g') \<Rightarrow>
          (let fund_return_rates = map (\<lambda>percent. percent / 100) percents;
               fund_value_by_year = calculate_fund_returns yearly_addition fund_return_rates 0
           in (Inr fund_value_by_year, g')))"

definition get_fund1_returns :: "real random_state \<Rightarrow> (py_error + real list) \<times> real random_state" where
  "get_fund1_returns = make_mutual_fund 10 (5214 / 1000) 30 5500"

definition get_fund2_returns :: "real random_state \<Rightarrow> (py_error + real list) \<times> real random_state" where
  "get_fund2_returns = make_mutual_fund 8 (4665 / 1000) 30 5500"

definition get_fund3_returns :: "real random_state \<Rightarrow> (py_error + real list) \<times> real random_state" where
  "get_fund3_returns = make_mutual_fund 6 (4116 / 1000) 30 5500"

definition get_fund4_returns :: "real random_state \<Rightarrow> (py_error + real list) \<times> real random_state" where
  "get_fund4_returns = make_mutual_fund 4 (3566 / 1000) 30 5500"

subsection \<open>The trial runner\<close>

text \<open>
  \<^verbatim>\<open>
  num_trials = 100000
  fund1_end_returns_per_trial = [get_fund1_returns()[-1] for i in range(num_trials)]
  \<close>
  and the same line for funds 2, 3 and 4. \<open>last_value xs\<close> is \<^verbatim>\<open>xs[-1]\<close>, which
  raises \<open>IndexError\<close> on an empty list. \<^verbatim>\<open>range(num_trials)\<close> is empty for
  \<open>num_trials \<le> 0\<close>. An exception in a trial ends the comprehension. The fund function
  and \<^verbatim>\<open>num_trials\<close> are the parameters of the model.
\<close>

definition last_value :: "'a list \<Rightarrow> py_error + 'a" where
  "last_value xs = (if xs = [] then Inl IndexError else Inr (last xs))"

fun trial_loop ::
  "('s \<Rightarrow> (py_error + 'a list) \<times> 's) \<Rightarrow> nat \<Rightarrow> 's \<Rightarrow> (py_error + 'a list) \<times> 's" where
  "trial_loop get_fund_returns 0 g = (Inr [], g)"
| "trial_loop get_fund_returns (Suc n) g =
     (case get_fund_returns g of
        (Inl e, g1) \<Rightarrow> (Inl e, g1)
      | (Inr value_by_year, g1) \<Rightarrow>
          (case last_value value_by_year of
             Inl e \<Rightarrow> (Inl e, g1)
           | Inr v \<Rightarrow>
               (case trial_loop get_fund_returns n g1 of
                  (Inl e, g2) \<Rightarrow> (Inl e, g2)
                | (Inr vs, g2) \<Rightarrow> (Inr (v # vs), g2))))"

definition end_returns_per_trial ::
  "('s \<Rightarrow> (py_error + 'a list) \<times> 's) \<Rightarrow> int \<Rightarrow> 's \<Rightarrow> (py_error + 'a list) \<times> 's" where
  "end_returns_per_trial get_fund_returns num_trials g =
     trial_loop get_fund_returns (nat num_trials) g"

subsection \<open>The statistics cells\<close>

text \<open>
  \<^verbatim>\<open>
  sum(fund1_end_returns_per_trial) / num_trials
  len([i for i in fund1_end_returns_per_trial if i >= 450000]) / num_trials
  \<close>
  and the same expressions for the other funds and for the threshold \<open>670000\<close>; the
  threshold is a parameter of the model. The cells compute in binary64: their model
  is \<open>expected_return_binary64\<close> and \<open>probability_of_reaching_binary64\<close>, after the
  float model below.

  \<open>probability_of_reaching\<close> is the threshold cell over exact arithmetic, that is
  without the rounding of the quotient. \<^verbatim>\<open>/\<close> raises \<open>ZeroDivisionError\<close> when
  \<^verbatim>\<open>num_trials\<close> is \<open>0\<close>.
\<close>

definition true_div :: "'a::field \<Rightarrow> int \<Rightarrow> py_error + 'a" where
  "true_div x n = (if n = 0 then Inl ZeroDivisionError else Inr (x / of_int n))"

definition probability_of_reaching :: "'a::linordered_field list \<Rightarrow> 'a \<Rightarrow> int \<Rightarrow> py_error + 'a" where
  "probability_of_reaching end_returns threshold num_trials =
     true_div (of_nat (length [i \<leftarrow> end_returns. i \<ge> threshold])) num_trials"

text \<open>
  The statistics of the specification, written from its words: the arithmetic mean is
  the sum of the values divided by \<open>num_trials\<close>, and the probability of a threshold
  is the number of trials whose value is at least the threshold, divided by
  \<open>num_trials\<close>.
\<close>

definition arithmetic_mean :: "'a::field list \<Rightarrow> int \<Rightarrow> 'a" where
  "arithmetic_mean batch num_trials = (\<Sum>i<length batch. batch ! i) / of_int num_trials"

definition goal_count :: "'a::linorder list \<Rightarrow> 'a \<Rightarrow> nat" where
  "goal_count batch t = card {i. i < length batch \<and> t \<le> batch ! i}"

definition probability :: "'a::linordered_field list \<Rightarrow> 'a \<Rightarrow> int \<Rightarrow> 'a" where
  "probability batch t num_trials = of_nat (goal_count batch t) / of_int num_trials"

subsection \<open>A sample random source\<close>

text \<open>A concrete sequence of samples for the examples: \<open>1, -1, 1, -1, ...\<close>\<close>

definition alternating :: "real random_state" where
  "alternating i = (if even i then 1 else - 1)"

subsection \<open>Python floats\<close>

text \<open>
  The notebook computes with Python \<^verbatim>\<open>float\<close>s, which are IEEE 754 binary64
  numbers. A finite binary64 number is modelled by the real number it denotes, and an
  operation by the exact operation followed by rounding to the nearest number with a
  53-bit significand, ties to the even significand. The exponent of the last place
  never falls below \<open>-1074\<close> (the subnormal range). Infinities and NaN are left out:
  the model is used on values far from the overflow threshold only.

  \<open>bit_length\<close> is Python's \<^verbatim>\<open>int.bit_length\<close>; \<open>binade x\<close> is the integer
  \<open>k\<close> with \<open>2\<^sup>k \<le> x < 2\<^sup>k\<^sup>+\<^sup>1\<close> for a positive \<open>x\<close>.
\<close>

fun bit_length :: "nat \<Rightarrow> nat" where
  "bit_length n = (if n = 0 then 0 else Suc (bit_length (n div 2)))"

declare bit_length.simps [simp del]

definition binade :: "real \<Rightarrow> int" where
  "binade x =
     (if 1 \<le> x then int (bit_length (nat \<lfloor>x\<rfloor>)) - 1
      else - int (bit_length (nat (\<lceil>1 / x\<rceil> - 1))))"

definition pow2 :: "int \<Rightarrow> real" where
  "pow2 e = (if 0 \<le> e then 2 ^ nat e else 1 / 2 ^ nat (- e))"

definition round_half_even :: "real \<Rightarrow> int" where
  "round_half_even x =
     (let f = \<lfloor>x\<rfloor>; d = x - of_int f
      in if d < 1 / 2 then f else if 1 / 2 < d then f + 1 else if even f then f else f + 1)"

definition round64 :: "real \<Rightarrow> real" where
  "round64 x =
     (if x = 0 then 0
      else (let e = max (binade \<bar>x\<bar> - 52) (- 1074)
            in of_int (round_half_even (x / pow2 e)) * pow2 e))"

datatype binary64 = B64 real

fun val :: "binary64 \<Rightarrow> real" where
  "val (B64 x) = x"

instantiation binary64 :: "{zero,one,plus,times}"
begin

definition zero_binary64_def: "0 = B64 0"

definition one_binary64_def: "1 = B64 1"

definition plus_binary64_def: "x + y = B64 (round64 (val x + val y))"

definition times_binary64_def: "x * y = B64 (round64 (val x * val y))"

instance ..

end

text \<open>
  \<open>float_of q\<close> is the float a decimal literal of value \<open>q\<close> denotes, and the float
  an \<^verbatim>\<open>int\<close> of value \<open>q\<close> is converted to when it meets a float in an operation.
\<close>

definition float_of :: "real \<Rightarrow> binary64" where
  "float_of q = B64 (round64 q)"

subsection \<open>The statistics cells in binary64\<close>

text \<open>
  The values of a batch are numpy \<^verbatim>\<open>float64\<close> scalars (the sampler returns a
  numpy array), taken to be finite here. numpy's arithmetic does not raise: a result
  beyond the largest finite float \<open>max_float\<close> is an infinity, and a float divided by
  zero is an infinity or a NaN. \<open>NonFinite\<close> stands for these three values; an
  operation on one of them with a finite float or an \<^verbatim>\<open>int\<close> gives one of them
  again.

  \<^verbatim>\<open>sum\<close> starts from the \<^verbatim>\<open>int\<close> \<open>0\<close> and adds the values from the left
  (\<open>np_add\<close>, each addition rounded); the sum of an empty batch is the \<^verbatim>\<open>int\<close>
  \<open>0\<close> itself. A float sum divided by \<^verbatim>\<open>num_trials\<close> is \<open>np_div\<close>:
  \<^verbatim>\<open>num_trials\<close> is converted to a float and the quotient is rounded. An
  \<^verbatim>\<open>int\<close> divided by an \<^verbatim>\<open>int\<close> (the sum of the empty batch, and the count
  of the threshold cell) is \<open>int_true_div\<close>: the quotient of the two integers
  rounded once, and \<open>ZeroDivisionError\<close> for the divisor \<open>0\<close>; the dividend is \<open>0\<close>
  or the length of a list, so the quotient does not overflow. The threshold is
  compared by value, whether it is written as an \<^verbatim>\<open>int\<close> or as a float.
\<close>

definition max_float :: real where
  "max_float = (2 ^ 53 - 1) * 2 ^ 971"

datatype float_result = Finite binary64 | NonFinite

definition rounded :: "real \<Rightarrow> float_result" where
  "rounded x = (if \<bar>round64 x\<bar> \<le> max_float then Finite (B64 (round64 x)) else NonFinite)"

fun np_add :: "float_result \<Rightarrow> binary64 \<Rightarrow> float_result" where
  "np_add (Finite s) x = rounded (val s + val x)"
| "np_add NonFinite x = NonFinite"

fun np_div :: "float_result \<Rightarrow> int \<Rightarrow> float_result" where
  "np_div (Finite s) n = (if n = 0 then NonFinite else rounded (val s / round64 (of_int n)))"
| "np_div NonFinite n = NonFinite"

definition int_true_div :: "int \<Rightarrow> int \<Rightarrow> py_error + binary64" where
  "int_true_div a n =
     (if n = 0 then Inl ZeroDivisionError else Inr (float_of (of_int a / of_int n)))"

definition expected_return_binary64 :: "binary64 list \<Rightarrow> int \<Rightarrow> py_error + float_result" where
  "expected_return_binary64 end_returns num_trials =
     (if end_returns = []
      then (case int_true_div 0 num_trials of Inl e \<Rightarrow> Inl e | Inr q \<Rightarrow> Inr (Finite q))
      else Inr (np_div (foldl np_add (Finite 0) end_returns) num_trials))"

definition probability_of_reaching_binary64 ::
  "binary64 list \<Rightarrow> real \<Rightarrow> int \<Rightarrow> py_error + binary64" where
  "probability_of_reaching_binary64 end_returns threshold num_trials =
     int_true_div (int (length [i \<leftarrow> end_returns. val i \<ge> threshold])) num_trials"

text \<open>
  The sum the expected-return cell divides, written as a recurrence: \<open>s\<^sub>0 = 0\<close> and
  \<open>s\<^sub>i\<^sub>+\<^sub>1\<close> is \<open>s\<^sub>i\<close> plus the \<open>i\<close>-th value, rounded (and not finite once a sum
  has left the range of the floats). \<open>representable x\<close> says that \<open>x\<close> is a finite
  float, so that rounding leaves it as it is.
\<close>

fun rounded_sum :: "binary64 list \<Rightarrow> nat \<Rightarrow> float_result" where
  "rounded_sum batch 0 = Finite (B64 0)"
| "rounded_sum batch (Suc i) = np_add (rounded_sum batch i) (batch ! i)"

definition representable :: "real \<Rightarrow> bool" where
  "representable x \<longleftrightarrow> round64 x = x \<and> \<bar>x\<bar> \<le> max_float"

section \<open>Properties of the accumulator\<close>

lemma fund_loop_acc:
  "fund_loop c rs p (acc @ acc') = acc @ fund_loop c rs p acc'"
  by (induction rs arbitrary: p acc') (simp_all add: Let_def)

lemma fund_loop_Cons:
  "fund_loop c (r # rs) p [] = ((p + c) * (1 + r)) # fund_loop c rs ((p + c) * (1 + r)) []"
  using fund_loop_acc [of c rs "(p + c) * (1 + r)" "[(p + c) * (1 + r)]" "[]"]
  by (simp add: Let_def)

lemma calculate_fund_returns_Nil:
  "calculate_fund_returns c [] p = []"
  by (simp add: calculate_fund_returns_def)

lemma calculate_fund_returns_Cons:
  "calculate_fund_returns c (r # rs) p =
     ((p + c) * (1 + r)) # calculate_fund_returns c rs ((p + c) * (1 + r))"
  by (simp only: calculate_fund_returns_def fund_loop_Cons)

lemma recurrence_value_shift:
  "i \<le> length rs \<Longrightarrow>
     recurrence_value c p (r # rs) (Suc i) = recurrence_value c ((p + c) * (1 + r)) rs i"
  by (induction i) simp_all

lemma recurrence_trajectory_Cons:
  "recurrence_trajectory c (r # rs) p =
     ((p + c) * (1 + r)) # recurrence_trajectory c rs ((p + c) * (1 + r))"
proof -
  have "map (\<lambda>i. recurrence_value c p (r # rs) (Suc i)) [0..<Suc (length rs)] =
        recurrence_value c p (r # rs) (Suc 0) #
          map (\<lambda>i. recurrence_value c p (r # rs) (Suc (Suc i))) [0..<length rs]"
    by (simp add: upt_conv_Cons map_Suc_upt [symmetric] del: upt_Suc recurrence_value.simps)
  moreover have "map (\<lambda>i. recurrence_value c p (r # rs) (Suc (Suc i))) [0..<length rs] =
        map (\<lambda>i. recurrence_value c ((p + c) * (1 + r)) rs (Suc i)) [0..<length rs]"
    by (rule map_cong) (simp_all add: recurrence_value_shift del: recurrence_value.simps)
  ultimately show ?thesis
    by (simp add: recurrence_trajectory_def del: upt_Suc)
qed

text \<open>
  C1. For every contribution \<open>c\<close>, starting principal \<open>p\<close> and finite sequence of rates
  \<open>r\<^sub>1..r\<^sub>n\<close>, \<open>calculate_fund_returns c [r\<^sub>1..r\<^sub>n] p\<close> is the trajectory
  \<open>v\<^sub>1..v\<^sub>n\<close> of the recurrence \<open>v\<^sub>0 = p\<close>, \<open>v\<^sub>i = (v\<^sub>i\<^sub>-\<^sub>1 + c) * (1 + r\<^sub>i)\<close>:
  the contribution is added before the year's multiplier is applied, and the values
  come in year order. It holds for any number type, whatever its addition and
  multiplication are.
\<close>

theorem calculate_fund_returns_recurrence:
  "calculate_fund_returns c rs p = recurrence_trajectory c rs p"
proof (induction rs arbitrary: p)
  case Nil
  show ?case by (simp add: calculate_fund_returns_Nil recurrence_trajectory_def)
next
  case (Cons r rs)
  show ?case
    by (simp only: calculate_fund_returns_Cons recurrence_trajectory_Cons Cons.IH)
qed

subsection \<open>Length and homogeneity\<close>

lemma length_calculate_fund_returns:
  "length (calculate_fund_returns c rs p) = length rs"
  by (induction rs arbitrary: p)
     (simp_all add: calculate_fund_returns_Nil calculate_fund_returns_Cons)

text \<open>
  C10. The accumulator is homogeneous in the cash amounts: over exact arithmetic (any
  semiring, so \<open>nat\<close>, \<open>int\<close>, \<open>rat\<close> and \<open>real\<close>), scaling the contribution and the
  starting principal by \<open>k\<close> scales every value of the trajectory by \<open>k\<close>.
\<close>

theorem calculate_fund_returns_homogeneous:
  fixes k :: "'a::semiring_1"
  shows "calculate_fund_returns (k * c) rs (k * p) = map ((*) k) (calculate_fund_returns c rs p)"
proof (induction rs arbitrary: p)
  case Nil
  show ?case by (simp add: calculate_fund_returns_Nil)
next
  case (Cons r rs)
  have "k * p + k * c = k * (p + c)"
    by (simp only: distrib_left)
  then have step: "(k * p + k * c) * (1 + r) = k * ((p + c) * (1 + r))"
    by (simp only: mult.assoc)
  show ?case
    by (simp add: calculate_fund_returns_Cons step Cons.IH)
qed

subsection \<open>Evaluating floats\<close>

lemma bit_length_0: "bit_length 0 = 0"
  by (simp add: bit_length.simps)

lemma bit_length_Suc_0: "bit_length (Suc 0) = 1"
  by (simp add: bit_length.simps [of "Suc 0"] bit_length.simps [of 0])

lemma bit_length_1: "bit_length 1 = 1"
  using bit_length_Suc_0 by simp

lemma bit_length_numeral: "bit_length (numeral k) = Suc (bit_length (numeral k div 2))"
  by (subst bit_length.simps) simp

lemmas round64_eval =
  round64_def binade_def pow2_def round_half_even_def Let_def
  bit_length_0 bit_length_Suc_0 bit_length_1 bit_length_numeral

subsection \<open>The float model rounds to nearest, ties to even\<close>

text \<open>
  What \<open>round64\<close> returns for \<open>x \<noteq> 0\<close>: with \<open>u\<close> the unit in the last place of
  the binade of \<open>x\<close> (\<open>binade_bounds\<close>), an integer multiple \<open>m * u\<close> with
  \<open>\<bar>m\<bar> \<le> 2\<^sup>5\<^sup>3\<close> (\<open>round64_significand\<close>), at most half a unit from \<open>x\<close>
  (\<open>round64_error\<close>), with \<open>m\<close> even when \<open>x\<close> is halfway between two multiples
  (\<open>round_half_even_tie\<close>).
\<close>

lemma bit_length_bounds:
  "0 < n \<Longrightarrow> 2 ^ (bit_length n - 1) \<le> n \<and> n < 2 ^ bit_length n"
proof (induction n rule: bit_length.induct)
  case (1 n)
  show ?case
  proof (cases "n div 2 = 0")
    case True
    with "1.prems" have "n = 1" by (simp add: div_eq_0_iff)
    then show ?thesis by (simp add: bit_length_Suc_0)
  next
    case False
    then have pos: "0 < n div 2" by simp
    have bl: "bit_length n = Suc (bit_length (n div 2))"
      using "1.prems" by (subst bit_length.simps) simp
    have blpos: "0 < bit_length (n div 2)"
      using pos by (subst bit_length.simps) simp
    from "1.IH" "1.prems" pos
    have ih: "2 ^ (bit_length (n div 2) - 1) \<le> n div 2 \<and> n div 2 < 2 ^ bit_length (n div 2)"
      by simp
    have "2 * 2 ^ (bit_length (n div 2) - 1) \<le> n"
      using ih by linarith
    moreover have "2 * 2 ^ (bit_length (n div 2) - 1) = (2 :: nat) ^ bit_length (n div 2)"
      using blpos by (cases "bit_length (n div 2)") simp_all
    moreover have "n < 2 * 2 ^ bit_length (n div 2)"
      using ih by linarith
    ultimately show ?thesis
      by (simp add: bl)
  qed
qed

lemma round_half_even_nearest: "\<bar>of_int (round_half_even x) - x\<bar> \<le> 1 / 2"
  unfolding round_half_even_def Let_def
  by (auto; linarith)

lemma pow2_pos: "0 < pow2 e"
  by (simp add: pow2_def)

lemma pow2_Suc: "pow2 (e + 1) = 2 * pow2 e"
proof (cases "0 \<le> e")
  case True
  then show ?thesis by (simp add: pow2_def nat_add_distrib)
next
  case False
  then have "nat (- e) = Suc (nat (- (e + 1)))" by simp
  then show ?thesis using False by (simp add: pow2_def)
qed

lemma binade_bounds:
  assumes "0 < x"
  shows "pow2 (binade x) \<le> x \<and> x < pow2 (binade x + 1)"
proof (cases "1 \<le> x")
  case True
  define n where "n = nat \<lfloor>x\<rfloor>"
  have npos: "0 < n" using True by (simp add: n_def)
  have nx: "real n \<le> x" "x < real n + 1"
    using True by (simp_all add: n_def)
  have bl: "0 < bit_length n"
    using npos by (subst bit_length.simps) simp
  from bit_length_bounds [OF npos]
  have b: "2 ^ (bit_length n - 1) \<le> n" "n + 1 \<le> 2 ^ bit_length n" by simp_all
  have e: "binade x = int (bit_length n - 1)"
    using True bl by (simp add: binade_def n_def of_nat_diff)
  have "pow2 (binade x) = 2 ^ (bit_length n - 1)"
    by (simp add: e pow2_def)
  moreover have "pow2 (binade x + 1) = 2 ^ bit_length n"
    using bl by (simp add: e pow2_def nat_add_distrib)
  moreover have "(2 :: real) ^ (bit_length n - 1) \<le> real n"
    using b(1) by (metis of_nat_le_iff of_nat_numeral of_nat_power)
  moreover have "real n + 1 \<le> 2 ^ bit_length n"
    using b(2) by (metis of_nat_le_iff of_nat_numeral of_nat_power of_nat_Suc Suc_eq_plus1 add.commute)
  ultimately show ?thesis using nx by linarith
next
  case False
  define y where "y = 1 / x"
  define n where "n = nat (\<lceil>y\<rceil> - 1)"
  have y1: "1 < y" using False assms by (simp add: y_def)
  then have c2: "2 \<le> \<lceil>y\<rceil>" by linarith
  then have npos: "0 < n" by (simp add: n_def)
  have nc: "real n = of_int \<lceil>y\<rceil> - 1" using c2 by (simp add: n_def)
  have ny: "real n < y" "y \<le> real n + 1"
    unfolding nc by linarith+
  have bl: "0 < bit_length n"
    using npos by (subst bit_length.simps) simp
  from bit_length_bounds [OF npos]
  have b: "2 ^ (bit_length n - 1) \<le> n" "n + 1 \<le> 2 ^ bit_length n" by simp_all
  have lo: "(2 :: real) ^ (bit_length n - 1) \<le> real n"
    using b(1) by (metis of_nat_le_iff of_nat_numeral of_nat_power)
  have hi: "real n + 1 \<le> 2 ^ bit_length n"
    using b(2) by (metis of_nat_le_iff of_nat_numeral of_nat_power of_nat_Suc Suc_eq_plus1 add.commute)
  have e: "binade x = - int (bit_length n)"
    using False by (simp add: binade_def n_def y_def)
  have p1: "pow2 (binade x) = 1 / 2 ^ bit_length n"
    using bl by (simp add: e pow2_def)
  have "pow2 (binade x + 1) = 2 * pow2 (binade x)" by (rule pow2_Suc)
  also have "\<dots> = 1 / 2 ^ (bit_length n - 1)"
    using bl by (cases "bit_length n") (simp_all add: p1)
  finally have p2: "pow2 (binade x + 1) = 1 / 2 ^ (bit_length n - 1)" .
  have xy: "x = 1 / y" by (simp add: y_def)
  have "y \<le> 2 ^ bit_length n" using ny hi by linarith
  then have "1 / 2 ^ bit_length n \<le> 1 / y"
    using y1 by (simp add: frac_le)
  then have a: "1 / 2 ^ bit_length n \<le> x" by (simp only: xy)
  have "2 ^ (bit_length n - 1) < y" using ny lo by linarith
  then have "1 / y < 1 / 2 ^ (bit_length n - 1)"
    by (simp add: frac_less2)
  then have b: "x < 1 / 2 ^ (bit_length n - 1)" by (simp only: xy)
  show ?thesis using a b by (simp only: p1 p2 simp_thms)
qed

lemma round64_error:
  "\<bar>round64 x - x\<bar> \<le> pow2 (max (binade \<bar>x\<bar> - 52) (- 1074)) / 2"
proof (cases "x = 0")
  case True
  then show ?thesis using pow2_pos [of "max (binade \<bar>x\<bar> - 52) (- 1074)"] by (simp add: round64_def)
next
  case False
  define e where "e = max (binade \<bar>x\<bar> - 52) (- 1074)"
  define u where "u = pow2 e"
  have upos: "0 < u" by (simp add: u_def pow2_pos)
  have r: "round64 x = of_int (round_half_even (x / u)) * u"
    using False by (simp add: round64_def Let_def e_def u_def)
  have "round64 x - x = (of_int (round_half_even (x / u)) - x / u) * u"
    using upos by (simp add: r algebra_simps)
  then have "\<bar>round64 x - x\<bar> = \<bar>of_int (round_half_even (x / u)) - x / u\<bar> * u"
    using upos by (simp add: abs_mult)
  also have "\<dots> \<le> (1 / 2) * u"
    using round_half_even_nearest [of "x / u"] upos by (simp add: mult_right_mono del: times_divide_eq_left)
  finally show ?thesis by (simp add: u_def e_def)
qed

lemma pow2_powi: "pow2 e = 2 powi e"
  by (simp add: pow2_def power_int_def inverse_eq_divide power_one_over)

lemma round_half_even_floor_ceiling:
  "\<lfloor>x\<rfloor> \<le> round_half_even x \<and> round_half_even x \<le> \<lceil>x\<rceil>"
  unfolding round_half_even_def Let_def
  by (auto simp: ceiling_altdef)

lemma scaled_significand:
  assumes "x \<noteq> 0"
  shows "\<bar>x\<bar> / pow2 (max (binade \<bar>x\<bar> - 52) (- 1074)) < 2 ^ 53"
proof -
  define k where "k = binade \<bar>x\<bar>"
  define e where "e = max (k - 52) (- 1074)"
  have "\<bar>x\<bar> < pow2 (k + 1)"
    using binade_bounds [of "\<bar>x\<bar>"] assms by (simp add: k_def)
  also have "pow2 (k + 1) = 2 powi (53 + (k - 52))"
    unfolding pow2_powi by (rule arg_cong [where f = "power_int 2"]) simp
  also have "\<dots> = 2 powi 53 * 2 powi (k - 52)"
    by (rule power_int_add) simp
  also have "\<dots> \<le> 2 powi 53 * 2 powi e"
    by (simp add: e_def power_int_increasing)
  finally have "\<bar>x\<bar> < 2 ^ 53 * pow2 e"
    by (simp add: pow2_powi)
  then show ?thesis
    using pow2_pos [of e] by (simp add: e_def k_def pos_divide_less_eq)
qed

lemma round64_significand:
  assumes "x \<noteq> 0"
  shows "\<bar>round_half_even (x / pow2 (max (binade \<bar>x\<bar> - 52) (- 1074)))\<bar> \<le> 2 ^ 53"
proof -
  define u where "u = pow2 (max (binade \<bar>x\<bar> - 52) (- 1074))"
  have upos: "0 < u" by (simp add: u_def pow2_pos)
  have "\<bar>x / u\<bar> < 2 ^ 53"
    using scaled_significand [OF assms] upos by (simp add: u_def)
  then have "x / u < 2 ^ 53" "- (2 ^ 53) < x / u"
    by linarith+
  then have "\<lceil>x / u\<rceil> \<le> 2 ^ 53" "- (2 ^ 53) \<le> \<lfloor>x / u\<rfloor>"
    by (simp_all add: ceiling_le_iff le_floor_iff)
  then show ?thesis
    using round_half_even_floor_ceiling [of "x / u"] unfolding u_def by linarith
qed

lemma round_half_even_tie:
  "x - of_int \<lfloor>x\<rfloor> = 1 / 2 \<Longrightarrow> even (round_half_even x)"
  by (simp add: round_half_even_def Let_def)

subsection \<open>The examples of the specification\<close>

text \<open>The float of the literal \<^verbatim>\<open>0.1\<close>, and the float \<^verbatim>\<open>1 + 0.1\<close>.\<close>

lemma float_of_tenth: "float_of (1 / 10) = B64 (3602879701896397 / 36028797018963968)"
  by (simp add: float_of_def round64_eval)

lemma one_plus_tenth: "1 + float_of (1 / 10) = B64 (2476979795053773 / 2251799813685248)"
  by (simp add: float_of_tenth plus_binary64_def one_binary64_def round64_eval)

lemma float_of_1000: "float_of 1000 = B64 1000"
  by (simp add: float_of_def round64_eval)

lemma float_of_0: "float_of 0 = B64 0"
  by (simp add: float_of_def round64_def)

text \<open>
  C4. \<^verbatim>\<open>calculate_fund_returns(0, [0.10, 0.10], 1000)\<close> is \<open>[1100, 1210]\<close> exactly:
  in exact arithmetic, and also in binary64 arithmetic, where \<^verbatim>\<open>0.10\<close> is not
  \<open>1/10\<close> and every operation rounds.
\<close>

theorem calculate_fund_returns_pure_compounding:
  "calculate_fund_returns 0 [1 / 10, 1 / 10] (1000 :: real) = [1100, 1210] \<and>
   calculate_fund_returns (float_of 0) [float_of (1 / 10), float_of (1 / 10)] (float_of 1000) =
     [B64 1100, B64 1210]"
proof
  show "calculate_fund_returns 0 [1 / 10, 1 / 10] (1000 :: real) = [1100, 1210]"
    by (simp add: calculate_fund_returns_Cons calculate_fund_returns_Nil)
next
  have year1: "(B64 1000 + B64 0) * B64 (2476979795053773 / 2251799813685248) = B64 1100"
    by (simp add: plus_binary64_def times_binary64_def round64_eval)
  have year2: "(B64 1100 + B64 0) * B64 (2476979795053773 / 2251799813685248) = B64 1210"
    by (simp add: plus_binary64_def times_binary64_def round64_eval)
  show "calculate_fund_returns (float_of 0) [float_of (1 / 10), float_of (1 / 10)]
          (float_of 1000) = [B64 1100, B64 1210]"
    by (simp only: calculate_fund_returns_Cons calculate_fund_returns_Nil one_plus_tenth
          float_of_1000 float_of_0 year1 year2)
qed

text \<open>
  C8. \<^verbatim>\<open>calculate_fund_returns(100, [-1.0], 0)\<close> is \<open>[0.0]\<close>: a return of -100%
  wipes out the year's contribution, in exact and in binary64 arithmetic.
\<close>

theorem calculate_fund_returns_total_loss:
  "calculate_fund_returns 100 [- 1] (0 :: real) = [0] \<and>
   calculate_fund_returns (float_of 100) [float_of (- 1)] (float_of 0) = [B64 0]"
proof
  show "calculate_fund_returns 100 [- 1] (0 :: real) = [0]"
    by (simp add: calculate_fund_returns_Cons calculate_fund_returns_Nil)
next
  have rate: "1 + float_of (- 1) = B64 0"
    by (simp add: float_of_def plus_binary64_def one_binary64_def round64_eval)
  have year1: "(float_of 0 + float_of 100) * B64 0 = B64 0"
    by (simp add: float_of_def plus_binary64_def times_binary64_def round64_def)
  show "calculate_fund_returns (float_of 100) [float_of (- 1)] (float_of 0) = [B64 0]"
    by (simp only: calculate_fund_returns_Cons calculate_fund_returns_Nil rate year1)
qed

section \<open>The sampler and the fund model\<close>

lemma randn_nonneg:
  "0 \<le> d \<Longrightarrow> randn d g = (Inr (map g [0..<nat d]), \<lambda>i. g (nat d + i))"
  by (simp add: randn_def)

lemma randn_neg: "d < 0 \<Longrightarrow> randn d g = (Inl ValueError, g)"
  by (simp add: randn_def)

lemma generate_return_rates_nonneg:
  "0 \<le> years \<Longrightarrow>
     generate_return_rates m s years g =
       (Inr (map (\<lambda>i. m + s * g i) [0..<nat years]), \<lambda>i. g (nat years + i))"
  by (simp add: generate_return_rates_def randn_nonneg)

lemma generate_return_rates_neg:
  "years < 0 \<Longrightarrow> generate_return_rates m s years g = (Inl ValueError, g)"
  by (simp add: generate_return_rates_def randn_neg)

lemma make_mutual_fund_neg:
  "years < 0 \<Longrightarrow> make_mutual_fund m s years c g = (Inl ValueError, g)"
  by (simp add: make_mutual_fund_def generate_return_rates_neg)

lemma make_mutual_fund_nonneg:
  "0 \<le> years \<Longrightarrow>
     make_mutual_fund m s years c g =
       (Inr (calculate_fund_returns c (map (\<lambda>i. (m + s * g i) / 100) [0..<nat years]) 0),
        \<lambda>i. g (nat years + i))"
  by (simp add: make_mutual_fund_def generate_return_rates_nonneg o_def)

text \<open>
  C5. The trajectory \<open>calculate_fund_returns\<close> returns is as long as
  \<open>returns_by_year\<close>, for every contribution, starting principal and sequence of
  rates; in particular it is empty for an empty sequence. For every mean, every
  standard deviation and every \<open>years \<ge> 0\<close>, \<open>generate_return_rates\<close> returns a
  sequence of length \<open>years\<close>.
\<close>

theorem trajectory_and_sequence_lengths:
  "length (calculate_fund_returns c rs p) = length rs \<and>
   calculate_fund_returns c [] p = [] \<and>
   (0 \<le> years \<longrightarrow>
      (\<exists>rates g'. generate_return_rates m s years g = (Inr rates, g') \<and>
         int (length rates) = years))"
  by (simp add: length_calculate_fund_returns calculate_fund_returns_Nil
        generate_return_rates_nonneg)

theorem trajectory_and_sequence_lengths_witness:
  "length (calculate_fund_returns 5500 [1 / 10, - 1 / 20, 0] (0 :: real)) = 3 \<and>
   calculate_fund_returns 5500 [] (0 :: real) = [] \<and>
   (0 :: int) \<le> 3 \<and>
   (\<exists>rates g'. generate_return_rates 4 (3566 / 1000) 3 alternating = (Inr rates, g') \<and>
      int (length rates) = 3)"
  using trajectory_and_sequence_lengths
    [of 5500 "[1 / 10, - 1 / 20, 0]" "0 :: real" 3 4 "3566 / 1000" alternating]
  by simp

text \<open>
  C6. Whenever the sampler, called with the percentage mean and standard deviation
  and \<open>years\<close>, produces the sequence \<open>percents\<close>, \<open>make_mutual_fund\<close> returns
  \<open>calculate_fund_returns\<close> of the contribution \<open>yearly_addition\<close>, of \<open>percents\<close>
  with each element divided by \<open>100\<close>, and of the starting principal \<open>0\<close>.
\<close>

theorem make_mutual_fund_composition:
  "generate_return_rates return_mean return_std years g = (Inr percents, g') \<Longrightarrow>
     make_mutual_fund return_mean return_std years yearly_addition g =
       (Inr (calculate_fund_returns yearly_addition (map (\<lambda>percent. percent / 100) percents) 0),
        g')"
  by (simp add: make_mutual_fund_def)

lemma alternating_rates:
  "generate_return_rates 4 2 2 alternating = (Inr [6, 2], \<lambda>i. alternating (2 + i))"
  by (simp add: generate_return_rates_nonneg alternating_def upt_rec [of 0]
        upt_rec [of "Suc 0"] numeral_2_eq_2)

theorem make_mutual_fund_composition_witness:
  "fst (generate_return_rates 4 2 2 alternating) = Inr [6, 2] \<and>
   fst (make_mutual_fund 4 2 2 5500 alternating) =
     Inr (calculate_fund_returns 5500 [6 / 100, 2 / 100] 0) \<and>
   calculate_fund_returns 5500 [6 / 100, 2 / 100] (0 :: real) = [5830, 115566 / 10]"
  using make_mutual_fund_composition [OF alternating_rates, of 5500]
  by (simp add: alternating_rates calculate_fund_returns_Cons calculate_fund_returns_Nil)

section \<open>The statistics\<close>

lemma length_filter_goal_count:
  "length [i \<leftarrow> xs. i \<ge> t] = goal_count xs t"
  by (simp add: goal_count_def length_filter_conv_card)

lemma foldl_rounded_sum:
  "foldl np_add (Finite (B64 0)) batch = rounded_sum batch (length batch)"
proof (induction batch rule: rev_induct)
  case Nil
  show ?case by simp
next
  case (snoc x xs)
  have "rounded_sum (xs @ [x]) k = rounded_sum xs k" if "k \<le> length xs" for k
    using that by (induction k) (simp_all add: nth_append)
  then show ?case
    using snoc by simp
qed

lemma rounded_representable: "representable x \<Longrightarrow> rounded x = Finite (B64 x)"
  by (simp add: representable_def rounded_def)

lemma rounded_sum_exact:
  "k \<le> length batch \<Longrightarrow> (\<forall>i\<le>k. representable (\<Sum>j<i. val (batch ! j))) \<Longrightarrow>
     rounded_sum batch k = Finite (B64 (\<Sum>j<k. val (batch ! j)))"
proof (induction k)
  case 0
  show ?case by simp
next
  case (Suc k)
  then have ih: "rounded_sum batch k = Finite (B64 (\<Sum>j<k. val (batch ! j)))"
    by simp
  have "representable (\<Sum>j<Suc k. val (batch ! j))"
    using Suc.prems(2) by blast
  then show ?case
    by (simp add: ih rounded_representable)
qed

lemma round64_0: "round64 0 = 0"
  by (simp add: round64_def)

lemma round64_1: "round64 1 = 1"
  by (simp add: round64_eval)

lemma max_float_pos: "0 \<le> max_float"
  by (simp add: max_float_def)

lemma max_float_ge: "2 ^ 64 \<le> max_float"
  by (simp add: max_float_def)

lemma rounded_0: "rounded 0 = Finite (B64 0)"
  by (simp add: rounded_def round64_0 max_float_pos)

lemma rounded_small: "\<bar>round64 x\<bar> \<le> 2 ^ 64 \<Longrightarrow> rounded x = Finite (B64 (round64 x))"
  using max_float_ge by (simp add: rounded_def)

lemma representable_small: "round64 x = x \<Longrightarrow> \<bar>x\<bar> \<le> 2 ^ 64 \<Longrightarrow> representable x"
  using max_float_ge by (simp add: representable_def)

text \<open>
  C2, as the code has it. The cells compute in binary64, so the expected value is the
  arithmetic mean only up to rounding. For every batch of finite floats, every
  threshold \<open>t\<close> and every \<open>num_trials\<close> other than \<open>0\<close> (and within 64 bits, so
  that it converts to a float):
  \<^item> the threshold cell gives the number of trials whose value is greater than or equal
    to \<open>t\<close>, a value equal to \<open>t\<close> counting, divided by \<open>num_trials\<close> and rounded
    once to the nearest float;
  \<^item> the expected-return cell gives the sum of the values, added from the left with a
    rounding at every addition, divided by \<open>num_trials\<close> with one more rounding;
  \<^item> that is the arithmetic mean (the exact sum divided by \<open>num_trials\<close>) when no step
    rounds: when every partial sum, \<open>num_trials\<close> and the mean are finite floats.
\<close>

theorem summary_statistics_binary64:
  assumes nz: "num_trials \<noteq> 0" and range: "\<bar>num_trials\<bar> < 2 ^ 63"
  shows "probability_of_reaching_binary64 batch t num_trials =
           Inr (float_of (probability (map val batch) t num_trials)) \<and>
         expected_return_binary64 batch num_trials =
           Inr (np_div (rounded_sum batch (length batch)) num_trials) \<and>
         ((\<forall>i\<le>length batch. representable (\<Sum>j<i. val (batch ! j))) \<and>
          representable (of_int num_trials) \<and>
          representable (arithmetic_mean (map val batch) num_trials) \<longrightarrow>
            expected_return_binary64 batch num_trials =
              Inr (Finite (B64 (arithmetic_mean (map val batch) num_trials))))"
proof (intro conjI impI)
  have "length [i \<leftarrow> batch. val i \<ge> t] = length [v \<leftarrow> map val batch. v \<ge> t]"
    by (simp add: filter_map o_def)
  then show "probability_of_reaching_binary64 batch t num_trials =
      Inr (float_of (probability (map val batch) t num_trials))"
    using nz
    by (simp add: probability_of_reaching_binary64_def int_true_div_def probability_def
          length_filter_goal_count [symmetric])
next
  show e: "expected_return_binary64 batch num_trials =
      Inr (np_div (rounded_sum batch (length batch)) num_trials)"
    using nz
    by (simp add: expected_return_binary64_def int_true_div_def foldl_rounded_sum
          zero_binary64_def float_of_def round64_0 rounded_0)
  assume ex: "(\<forall>i\<le>length batch. representable (\<Sum>j<i. val (batch ! j))) \<and>
          representable (of_int num_trials) \<and>
          representable (arithmetic_mean (map val batch) num_trials)"
  then have s: "rounded_sum batch (length batch) =
      Finite (B64 (\<Sum>j<length batch. val (batch ! j)))"
    by (simp add: rounded_sum_exact)
  have m: "arithmetic_mean (map val batch) num_trials =
      (\<Sum>j<length batch. val (batch ! j)) / of_int num_trials"
    by (simp add: arithmetic_mean_def)
  from ex have rn: "round64 (of_int num_trials) = of_int num_trials"
    by (simp add: representable_def)
  show "expected_return_binary64 batch num_trials =
      Inr (Finite (B64 (arithmetic_mean (map val batch) num_trials)))"
    using ex nz by (simp add: e s rn m [symmetric] rounded_representable)
qed

lemma round64_small_integers:
  "round64 1 = 1" "round64 2 = 2" "round64 3 = 3" "round64 6 = 6"
  by (simp_all add: round64_eval)

lemma partial_sums_123:
  "\<forall>i\<le>length [B64 1, B64 2, B64 3]. representable (\<Sum>j<i. val ([B64 1, B64 2, B64 3] ! j))"
proof (intro allI impI)
  fix i :: nat
  assume "i \<le> length [B64 1, B64 2, B64 3]"
  then consider "i = 0" | "i = 1" | "i = 2" | "i = 3"
    by (auto simp: le_Suc_eq)
  then show "representable (\<Sum>j<i. val ([B64 1, B64 2, B64 3] ! j))"
    by cases
       (simp_all add: lessThan_Suc eval_nat_numeral representable_small
          round64_small_integers round64_0)
qed

lemma goal_count_123: "goal_count [1, 2, 3 :: real] 2 = 2"
proof -
  have "{i. i < length [1, 2, 3 :: real] \<and> 2 \<le> [1, 2, 3 :: real] ! i} = {1, 2}"
    by (auto simp: less_Suc_eq nth_Cons')
  then show ?thesis
    by (simp add: goal_count_def)
qed

lemma float_of_two_thirds: "float_of (2 / 3) = B64 (6004799503160661 / 9007199254740992)"
  by (simp add: float_of_def round64_eval)

theorem summary_statistics_binary64_witness:
  "(3 :: int) \<noteq> 0 \<and> \<bar>3 :: int\<bar> < 2 ^ 63 \<and>
   probability [1, 2, 3 :: real] 2 3 = 2 / 3 \<and>
   probability_of_reaching_binary64 [B64 1, B64 2, B64 3] 2 3 =
     Inr (B64 (6004799503160661 / 9007199254740992)) \<and>
   representable 0 \<and> representable 1 \<and> representable 3 \<and> representable 6 \<and>
   representable 2 \<and>
   arithmetic_mean [1, 2, 3 :: real] 3 = 2 \<and>
   expected_return_binary64 [B64 1, B64 2, B64 3] 3 = Inr (Finite (B64 2))"
proof -
  have m: "arithmetic_mean [1, 2, 3 :: real] 3 = 2"
    by (simp add: arithmetic_mean_def lessThan_Suc eval_nat_numeral)
  have p: "probability [1, 2, 3 :: real] 2 3 = 2 / 3"
    by (simp add: probability_def goal_count_123)
  have r: "representable 0" "representable 1" "representable 3" "representable 6"
    "representable 2"
    by (simp_all add: representable_small round64_small_integers round64_0)
  have h1: "(3 :: int) \<noteq> 0" and h2: "\<bar>3 :: int\<bar> < 2 ^ 63"
    by simp_all
  note T = summary_statistics_binary64 [OF h1 h2, of "[B64 1, B64 2, B64 3]" 2]
  have n: "representable (of_int 3)"
    using r by simp
  have mm: "representable (arithmetic_mean (map val [B64 1, B64 2, B64 3]) 3)"
    using r m by simp
  have t1: "probability_of_reaching_binary64 [B64 1, B64 2, B64 3] 2 3 =
      Inr (float_of (probability (map val [B64 1, B64 2, B64 3]) 2 3))"
    using T by (rule conjunct1)
  have "expected_return_binary64 [B64 1, B64 2, B64 3] 3 =
      Inr (Finite (B64 (arithmetic_mean (map val [B64 1, B64 2, B64 3]) 3)))"
    using T partial_sums_123 n mm by blast
  then have t3: "expected_return_binary64 [B64 1, B64 2, B64 3] 3 = Inr (Finite (B64 2))"
    using m by simp
  have t1': "probability_of_reaching_binary64 [B64 1, B64 2, B64 3] 2 3 =
      Inr (B64 (6004799503160661 / 9007199254740992))"
    using t1 p by (simp add: float_of_two_thirds)
  show ?thesis
    using t1' t3 r m p by simp
qed

text \<open>
  The claim C2 as the specification states it (the expected value is the arithmetic
  mean) fails: for the batch \<open>[10\<^sup>1\<^sup>6, 1, 1]\<close> the float sum is \<open>10\<^sup>1\<^sup>6\<close>, both
  additions of \<open>1\<close> being rounded away, and the cell gives \<open>3333333333333333.5\<close>,
  where the arithmetic mean is \<open>3333333333333334\<close>, a float itself.
\<close>

lemma float_sum_example:
  "foldl np_add (Finite 0) [B64 10000000000000000, B64 1, B64 1] =
     Finite (B64 10000000000000000)"
proof -
  have a: "round64 10000000000000000 = 10000000000000000"
    by (simp add: round64_eval)
  have b: "round64 10000000000000001 = 10000000000000000"
    by (simp add: round64_eval)
  show ?thesis
    by (simp add: zero_binary64_def rounded_small a b)
qed

theorem arithmetic_mean_counterexample:
  "expected_return_binary64 [B64 10000000000000000, B64 1, B64 1] 3 =
     Inr (Finite (B64 (6666666666666667 / 2))) \<and>
   arithmetic_mean [10000000000000000, 1, 1 :: real] 3 = 3333333333333334 \<and>
   representable 3333333333333334"
proof -
  have q: "round64 (10000000000000000 / 3) = 6666666666666667 / 2"
    by (simp add: round64_eval)
  have t: "round64 3 = 3"
    by (simp add: round64_eval)
  have r: "round64 3333333333333334 = 3333333333333334"
    by (simp add: round64_eval)
  have m: "arithmetic_mean [10000000000000000, 1, 1 :: real] 3 = 3333333333333334"
    by (simp add: arithmetic_mean_def lessThan_Suc eval_nat_numeral)
  have "expected_return_binary64 [B64 10000000000000000, B64 1, B64 1] 3 =
      Inr (np_div (Finite (B64 10000000000000000)) 3)"
    unfolding expected_return_binary64_def float_sum_example by simp
  then show ?thesis
    by (simp add: t q rounded_small m representable_small r)
qed

text \<open>
  With \<open>num_trials = 0\<close> the threshold cell raises; the expected-return cell raises
  for the empty batch, the only one the trial runner returns for \<open>0\<close> trials, and gives
  an infinity or a NaN for any other batch.
\<close>

lemma statistics_zero_trials:
  "probability_of_reaching_binary64 batch t 0 = Inl ZeroDivisionError \<and>
   probability_of_reaching (map val batch) t 0 = Inl ZeroDivisionError \<and>
   expected_return_binary64 [] 0 = Inl ZeroDivisionError \<and>
   (batch \<noteq> [] \<longrightarrow> expected_return_binary64 batch 0 = Inr NonFinite)"
proof -
  have "np_div s 0 = NonFinite" for s
    by (cases s) simp_all
  then show ?thesis
    by (simp add: probability_of_reaching_binary64_def probability_of_reaching_def
          int_true_div_def true_div_def expected_return_binary64_def)
qed

lemma length_filter_antimono:
  fixes t1 :: "'a::linorder"
  shows "t1 \<le> t2 \<Longrightarrow> length [i \<leftarrow> xs. i \<ge> t2] \<le> length [i \<leftarrow> xs. i \<ge> t1]"
  by (induction xs) auto

text \<open>Every batch the trial runner returns has \<open>num_trials\<close> values (none for \<open>num_trials \<le> 0\<close>).\<close>

lemma trial_loop_length:
  "trial_loop f n g = (Inr batch, g') \<Longrightarrow> length batch = n"
  by (induction n arbitrary: g batch g')
     (auto split: prod.splits sum.splits)

lemma end_returns_per_trial_length:
  "end_returns_per_trial f num_trials g = (Inr batch, g') \<Longrightarrow> length batch = nat num_trials"
  by (simp add: end_returns_per_trial_def trial_loop_length)

text \<open>
  C7. For every batch of \<open>num_trials\<close> values (\<open>num_trials\<close> not \<open>0\<close>, so that the
  division returns) and every pair of thresholds \<open>t1 \<le> t2\<close>, the threshold cell
  computes a probability for each, the probability for \<open>t1\<close> is greater than or equal
  to the one for \<open>t2\<close>, and both lie in \<open>[0, 1]\<close>.
\<close>

theorem probability_monotone_bounded:
  fixes batch :: "'a::linordered_field list"
  assumes size: "length batch = nat num_trials" and nz: "num_trials \<noteq> 0" and le: "t1 \<le> t2"
  shows "\<exists>p1 p2.
           probability_of_reaching batch t1 num_trials = Inr p1 \<and>
           probability_of_reaching batch t2 num_trials = Inr p2 \<and>
           p2 \<le> p1 \<and> 0 \<le> p1 \<and> p1 \<le> 1 \<and> 0 \<le> p2 \<and> p2 \<le> 1"
proof (cases "0 < num_trials")
  case True
  define n1 where "n1 = length [i \<leftarrow> batch. i \<ge> t1]"
  define n2 where "n2 = length [i \<leftarrow> batch. i \<ge> t2]"
  have n21: "n2 \<le> n1"
    unfolding n1_def n2_def using le by (rule length_filter_antimono)
  have "n1 \<le> length batch"
    unfolding n1_def by (rule length_filter_le)
  with size True have n1: "int n1 \<le> num_trials"
    by simp
  have pos: "(0 :: 'a) < of_int num_trials"
    using True by simp
  have "(of_nat n1 :: 'a) \<le> of_int num_trials"
    using n1 by (metis of_int_le_iff of_int_of_nat_eq)
  then have b1: "(of_nat n1 :: 'a) / of_int num_trials \<le> 1"
    using pos by simp
  have m: "(of_nat n2 :: 'a) / of_int num_trials \<le> of_nat n1 / of_int num_trials"
    using n21 pos by (simp add: divide_right_mono)
  have z: "(0 :: 'a) \<le> of_nat n2 / of_int num_trials"
    using pos by simp
  show ?thesis
    using nz b1 m z
    by (simp add: probability_of_reaching_def true_div_def n1_def [symmetric] n2_def [symmetric])
next
  case False
  with size have "batch = []"
    by simp
  then show ?thesis
    using nz by (simp add: probability_of_reaching_def true_div_def)
qed

theorem probability_monotone_bounded_witness:
  "length [1, 2, 3 :: real] = nat 3 \<and> (3 :: int) \<noteq> 0 \<and> (2 :: real) \<le> 3 \<and>
   probability_of_reaching [1, 2, 3 :: real] 2 3 = Inr (2 / 3) \<and>
   probability_of_reaching [1, 2, 3 :: real] 3 3 = Inr (1 / 3) \<and>
   (1 / 3 :: real) \<le> 2 / 3 \<and> (0 :: real) \<le> 1 / 3 \<and> (2 / 3 :: real) \<le> 1"
  using probability_monotone_bounded [of "[1, 2, 3 :: real]" 3 2 3]
  by (simp add: probability_of_reaching_def true_div_def)

subsection \<open>The order and the bounds in binary64\<close>

text \<open>
  Rounding to the nearest float keeps the order of the quotients and leaves \<open>0\<close> and
  \<open>1\<close> as they are. So the probabilities the binary64 threshold cell computes are the
  rounded probabilities of the exact cell, and they are ordered and bounded in the
  same way.
\<close>

lemma round_half_even_mono:
  assumes "a \<le> b"
  shows "round_half_even a \<le> round_half_even b"
proof (cases "\<lfloor>a\<rfloor> = \<lfloor>b\<rfloor>")
  case True
  then show ?thesis
    using assms unfolding round_half_even_def Let_def by auto
next
  case False
  then have "\<lfloor>a\<rfloor> < \<lfloor>b\<rfloor>"
    using assms floor_mono [of a b] by linarith
  moreover have "round_half_even a \<le> \<lfloor>a\<rfloor> + 1"
    using round_half_even_floor_ceiling [of a] by (simp add: ceiling_altdef split: if_splits)
  moreover have "\<lfloor>b\<rfloor> \<le> round_half_even b"
    using round_half_even_floor_ceiling [of b] by simp
  ultimately show ?thesis by linarith
qed

lemma pow2_mono: "e \<le> e' \<Longrightarrow> pow2 e \<le> pow2 e'"
  by (simp add: pow2_powi power_int_increasing)

lemma pow2_less_imp: "pow2 e < pow2 e' \<Longrightarrow> e < e'"
  using pow2_mono [of e' e] by (cases "e < e'") simp_all

lemma binade_mono:
  assumes "0 < x" "x \<le> y"
  shows "binade x \<le> binade y"
proof -
  have "pow2 (binade x) \<le> x" using binade_bounds [of x] assms by simp
  also have "x \<le> y" by fact
  also have "y < pow2 (binade y + 1)" using binade_bounds [of y] assms by simp
  finally have "binade x < binade y + 1" by (rule pow2_less_imp)
  then show ?thesis by simp
qed

lemma round64_nonneg: "0 \<le> x \<Longrightarrow> 0 \<le> round64 x"
proof -
  assume x: "0 \<le> x"
  define u where "u = pow2 (max (binade \<bar>x\<bar> - 52) (- 1074))"
  have upos: "0 < u" by (simp add: u_def pow2_pos)
  have "0 \<le> x / u" using x upos by simp
  then have "0 \<le> \<lfloor>x / u\<rfloor>" by simp
  then have "0 \<le> round_half_even (x / u)"
    using round_half_even_floor_ceiling [of "x / u"] by linarith
  then show ?thesis
    using upos by (simp add: round64_def Let_def u_def [symmetric])
qed

lemma round64_mono_pos:
  assumes x: "0 < x" and xy: "x \<le> y"
  shows "round64 x \<le> round64 y"
proof -
  define ex where "ex = max (binade \<bar>x\<bar> - 52) (- 1074)"
  define ey where "ey = max (binade \<bar>y\<bar> - 52) (- 1074)"
  have y: "0 < y" using x xy by simp
  have rx: "round64 x = of_int (round_half_even (x / pow2 ex)) * pow2 ex"
    using x by (simp add: round64_def Let_def ex_def)
  have ry: "round64 y = of_int (round_half_even (y / pow2 ey)) * pow2 ey"
    using y by (simp add: round64_def Let_def ey_def)
  have k: "binade x \<le> binade y" using x xy by (rule binade_mono)
  then have e: "ex \<le> ey" using x y by (simp add: ex_def ey_def)
  show ?thesis
  proof (cases "ex = ey")
    case True
    have "x / pow2 ey \<le> y / pow2 ey"
      using xy pow2_pos [of ey] by (simp add: divide_right_mono)
    then have "round_half_even (x / pow2 ey) \<le> round_half_even (y / pow2 ey)"
      by (rule round_half_even_mono)
    then have "(of_int (round_half_even (x / pow2 ey)) :: real) \<le> of_int (round_half_even (y / pow2 ey))"
      by simp
    then show ?thesis
      using pow2_pos [of ey] by (simp add: rx ry True mult_right_mono)
  next
    case False
    with e have lt: "ex < ey" by simp
    have "- 1074 \<le> ex" by (simp add: ex_def)
    with lt have "- 1074 < ey" by simp
    then have ey: "ey = binade y - 52"
      using y unfolding ey_def by (simp add: max_def split: if_splits)
    have "\<bar>round_half_even (x / pow2 ex)\<bar> \<le> 2 ^ 53"
      using round64_significand [of x] x by (simp add: ex_def)
    then have "round_half_even (x / pow2 ex) \<le> 2 ^ 53" by linarith
    then have "(of_int (round_half_even (x / pow2 ex)) :: real) \<le> 2 ^ 53"
      by (metis of_int_le_iff of_int_numeral of_int_power)
    then have "round64 x \<le> 2 ^ 53 * pow2 ex"
      using pow2_pos [of ex] by (simp add: rx mult_right_mono)
    also have "\<dots> \<le> 2 ^ 53 * pow2 (ey - 1)"
      using lt by (simp add: pow2_mono)
    also have "\<dots> = 2 ^ 52 * pow2 ey"
      using pow2_Suc [of "ey - 1"] by simp
    finally have up: "round64 x \<le> 2 ^ 52 * pow2 ey" .
    have "pow2 (binade y) = 2 powi (52 + ey)"
      unfolding pow2_powi by (rule arg_cong [where f = "power_int 2"]) (simp add: ey)
    also have "\<dots> = 2 powi 52 * 2 powi ey"
      by (rule power_int_add) simp
    finally have "pow2 (binade y) = 2 ^ 52 * pow2 ey"
      by (simp add: pow2_powi)
    then have "2 ^ 52 * pow2 ey \<le> y"
      using binade_bounds [of y] y by simp
    then have "2 ^ 52 \<le> y / pow2 ey"
      using pow2_pos [of ey] by (simp add: pos_le_divide_eq)
    then have "2 ^ 52 \<le> \<lfloor>y / pow2 ey\<rfloor>"
      by (simp add: le_floor_iff)
    then have "2 ^ 52 \<le> round_half_even (y / pow2 ey)"
      using round_half_even_floor_ceiling [of "y / pow2 ey"] by linarith
    then have "(2 ^ 52 :: real) \<le> of_int (round_half_even (y / pow2 ey))"
      by (metis of_int_le_iff of_int_numeral of_int_power)
    then have "2 ^ 52 * pow2 ey \<le> round64 y"
      using pow2_pos [of ey] by (simp add: ry mult_right_mono)
    with up show ?thesis by linarith
  qed
qed

lemma round64_mono_nonneg: "0 \<le> x \<Longrightarrow> x \<le> y \<Longrightarrow> round64 x \<le> round64 y"
  using round64_mono_pos [of x y] round64_nonneg [of y] by (cases "x = 0") (simp_all add: round64_0)

lemma probability_of_reaching_binary64_rounds:
  "probability_of_reaching_binary64 batch t num_trials =
     (case probability_of_reaching (map val batch) t num_trials of
        Inl e \<Rightarrow> Inl e
      | Inr p \<Rightarrow> Inr (float_of p))"
  by (simp add: probability_of_reaching_binary64_def probability_of_reaching_def int_true_div_def
        true_div_def filter_map o_def)

lemma probability_of_reaching_binary64_monotone_bounded:
  assumes size: "length batch = nat num_trials" and nz: "num_trials \<noteq> 0" and le: "t1 \<le> t2"
  shows "\<exists>p1 p2.
           probability_of_reaching_binary64 batch t1 num_trials = Inr p1 \<and>
           probability_of_reaching_binary64 batch t2 num_trials = Inr p2 \<and>
           val p2 \<le> val p1 \<and> 0 \<le> val p1 \<and> val p1 \<le> 1 \<and> 0 \<le> val p2 \<and> val p2 \<le> 1"
proof -
  define n1 where "n1 = length [i \<leftarrow> batch. val i \<ge> t1]"
  define n2 where "n2 = length [i \<leftarrow> batch. val i \<ge> t2]"
  define q1 where "q1 = real_of_int (int n1) / real_of_int num_trials"
  define q2 where "q2 = real_of_int (int n2) / real_of_int num_trials"
  have p1: "probability_of_reaching_binary64 batch t1 num_trials = Inr (B64 (round64 q1))"
    and p2: "probability_of_reaching_binary64 batch t2 num_trials = Inr (B64 (round64 q2))"
    using nz
    by (simp_all add: probability_of_reaching_binary64_def int_true_div_def float_of_def
          n1_def n2_def q1_def q2_def)
  have q: "0 \<le> q2 \<and> q2 \<le> q1 \<and> q1 \<le> 1"
  proof (cases "0 < num_trials")
    case True
    have "n2 \<le> n1"
      unfolding n1_def n2_def using le by (induction batch) auto
    moreover have "n1 \<le> length batch"
      unfolding n1_def by (rule length_filter_le)
    then have "int n1 \<le> num_trials"
      using size True by simp
    then have "real n1 \<le> real_of_int num_trials"
      by (metis of_int_le_iff of_int_of_nat_eq)
    ultimately show ?thesis
      using True by (simp add: q1_def q2_def divide_right_mono)
  next
    case False
    with size have "batch = []" by simp
    then show ?thesis
      by (simp add: q1_def q2_def n1_def n2_def)
  qed
  then have "0 \<le> round64 q2" "round64 q2 \<le> round64 q1" "round64 q1 \<le> 1"
    using round64_nonneg [of q2] round64_mono_nonneg [of q2 q1] round64_mono_nonneg [of q1 1]
    by (simp_all add: round64_1)
  then show ?thesis
    by (simp add: p1 p2)
qed

section \<open>Parameters out of range\<close>

lemma trial_loop_error:
  "f g = (Inr [], g) \<Longrightarrow> 0 < n \<Longrightarrow> trial_loop f n g = (Inl IndexError, g)"
  by (cases n) (simp_all add: last_value_def)

text \<open>
  C3, as the code has it. The code checks none of its parameters. Only a negative
  \<open>years\<close> fails, with the \<open>ValueError\<close> that numpy raises for a negative dimension:
  \<open>generate_return_rates\<close>, and so \<open>make_mutual_fund\<close>, then return the error and
  leave the random source as it was. For \<open>years \<ge> 0\<close> every standard deviation,
  a negative one included, gives the rates \<open>mean + std * z\<^sub>i\<close> unchanged. For
  \<open>num_trials \<le> 0\<close> the trial runner runs no trial and returns an empty batch.
\<close>

theorem parameter_checks:
  "(years < 0 \<longrightarrow>
      generate_return_rates m s years g = (Inl ValueError, g) \<and>
      make_mutual_fund m s years c g = (Inl ValueError, g)) \<and>
   (0 \<le> years \<longrightarrow>
      generate_return_rates m s years g =
        (Inr (map (\<lambda>i. m + s * g i) [0..<nat years]), \<lambda>i. g (nat years + i))) \<and>
   (num_trials \<le> 0 \<longrightarrow> end_returns_per_trial f num_trials h = (Inr [], h))"
  by (simp add: generate_return_rates_neg make_mutual_fund_neg generate_return_rates_nonneg
        end_returns_per_trial_def)

theorem parameter_checks_witness:
  "(- 1 :: int) < 0 \<and>
   generate_return_rates 10 5 (- 1) alternating = (Inl ValueError, alternating) \<and>
   make_mutual_fund 10 5 (- 1) 5500 alternating = (Inl ValueError, alternating) \<and>
   (0 :: int) \<le> 2 \<and>
   fst (generate_return_rates 10 (- 5) 2 alternating) = Inr [5, 15] \<and>
   (0 :: int) \<le> 0 \<and>
   end_returns_per_trial get_fund1_returns 0 alternating = (Inr [], alternating)"
  using parameter_checks [of "- 1" 10 5 alternating 5500 0 get_fund1_returns alternating]
    parameter_checks [of 2 10 "- 5" alternating 5500 0 get_fund1_returns alternating]
  by (simp add: alternating_def upt_rec [of 0] upt_rec [of "Suc 0"] numeral_2_eq_2)

text \<open>
  The claim C3 as the specification states it (an error for \<open>std < 0\<close> and for
  \<open>num_trials \<le> 0\<close>) fails: with the standard deviation \<open>-5\<close> the sampler and the fund
  model return their sequences, and with \<open>num_trials\<close> \<open>0\<close> or \<open>-3\<close> the trial runner
  returns the empty batch.
\<close>

theorem invalid_parameters_counterexample:
  "fst (generate_return_rates 10 (- 5) 2 alternating) = Inr [5, 15] \<and>
   fst (make_mutual_fund 10 (- 5) 2 5500 alternating) = Inr [5775, 1296625 / 100] \<and>
   fst (end_returns_per_trial get_fund1_returns 0 alternating) = Inr [] \<and>
   fst (end_returns_per_trial get_fund1_returns (- 3) alternating) = Inr []"
  by (simp add: generate_return_rates_nonneg make_mutual_fund_nonneg end_returns_per_trial_def
        alternating_def upt_rec [of 0] upt_rec [of "Suc 0"] numeral_2_eq_2
        calculate_fund_returns_Cons calculate_fund_returns_Nil)

text \<open>
  C9, as the code has it. With \<open>years = 0\<close> the sampler returns the empty sequence,
  the trajectory is empty, and neither \<open>generate_return_rates\<close> nor
  \<open>calculate_fund_returns\<close> nor \<open>make_mutual_fund\<close> raises. The trial runner takes
  the last element of each trajectory: on the empty one that is an \<open>IndexError\<close> in
  the first trial, so it returns a batch (the empty one) only for \<open>num_trials \<le> 0\<close>.
\<close>

theorem zero_years:
  "generate_return_rates m s 0 g = (Inr [], g) \<and>
   make_mutual_fund m s 0 c g = (Inr [], g) \<and>
   calculate_fund_returns c [] p = [] \<and>
   (0 < num_trials \<longrightarrow>
      end_returns_per_trial (make_mutual_fund m s 0 c) num_trials g = (Inl IndexError, g)) \<and>
   (num_trials \<le> 0 \<longrightarrow>
      end_returns_per_trial (make_mutual_fund m s 0 c) num_trials g = (Inr [], g))"
proof -
  have mmf: "make_mutual_fund m s 0 c g = (Inr [], g)"
    by (simp add: make_mutual_fund_nonneg calculate_fund_returns_Nil)
  have "0 < num_trials \<Longrightarrow>
      end_returns_per_trial (make_mutual_fund m s 0 c) num_trials g = (Inl IndexError, g)"
    using trial_loop_error [of "make_mutual_fund m s 0 c" g "nat num_trials"] mmf
    by (simp add: end_returns_per_trial_def)
  then show ?thesis
    by (simp add: mmf generate_return_rates_nonneg calculate_fund_returns_Nil
          end_returns_per_trial_def)
qed

theorem zero_years_witness:
  "generate_return_rates 4 (3566 / 1000) 0 alternating = (Inr [], alternating) \<and>
   make_mutual_fund 4 (3566 / 1000) 0 5500 alternating = (Inr [], alternating) \<and>
   calculate_fund_returns 5500 [] (0 :: real) = [] \<and>
   (0 :: int) < 100000 \<and>
   end_returns_per_trial (make_mutual_fund 4 (3566 / 1000) 0 5500) 100000 alternating =
     (Inl IndexError, alternating) \<and>
   (0 :: int) \<le> 0 \<and>
   end_returns_per_trial (make_mutual_fund 4 (3566 / 1000) 0 5500) 0 alternating =
     (Inr [], alternating)"
  using zero_years [of 4 "3566 / 1000" alternating 5500 0 100000]
    zero_years [of 4 "3566 / 1000" alternating 5500 0 0]
  by simp

text \<open>
  The claim C9 as the specification states it (no error anywhere in the pipeline)
  fails: one trial of a fund of \<open>0\<close> years ends the trial runner with \<open>IndexError\<close>.
\<close>

theorem zero_years_counterexample:
  "end_returns_per_trial (make_mutual_fund 4 (3566 / 1000) 0 5500) 1 alternating =
     (Inl IndexError, alternating)"
  by (simp add: end_returns_per_trial_def make_mutual_fund_nonneg calculate_fund_returns_Nil
        last_value_def)

end
